theory Spec2Isabelle
  imports Main "HOL-Library.AList"
begin

section \<open>Python values and exceptions\<close>

text \<open>
  The values that reach the decorator of \<^verbatim>\<open>permissions.py\<close> as positional or keyword
  arguments: \<^verbatim>\<open>None\<close>, strings, integers and \<^verbatim>\<open>requests.Session\<close> objects. A session
  is a mutable object, so it is a reference (an address) into the world below; two
  sessions are equal exactly when they are the same object, which is what Python's
  \<^verbatim>\<open>==\<close> does for a class without \<^verbatim>\<open>__eq__\<close>.
\<close>

datatype pyval = PNone | PStr string | PInt int | PSession nat

text \<open>
  Exceptions are values. \<^verbatim>\<open>KeyboardInterrupt\<close> derives from \<^verbatim>\<open>BaseException\<close> only,
  every other one from \<^verbatim>\<open>Exception\<close>; \<^verbatim>\<open>except Exception\<close> catches the latter.
\<close>

datatype exn =
    RoleError string
  | HTTPError int
  | ConnectionError
  | AttributeError
  | KeyError string
  | TypeError
  | MoodleSessionError string
  | MoodleError string
  | KeyboardInterrupt

fun is_Exception :: "exn \<Rightarrow> bool" where
  "is_Exception KeyboardInterrupt = False"
| "is_Exception _ = True"

text \<open>
  The class of an exception, which is what an \<^verbatim>\<open>except\<close> clause tests. The two
  \<^verbatim>\<open>raise RoleError(...)\<close> of \<^verbatim>\<open>permissions.py\<close> differ in the message only.
\<close>

fun exn_class :: "exn \<Rightarrow> string" where
  "exn_class (RoleError m) = ''RoleError''"
| "exn_class (HTTPError st) = ''HTTPError''"
| "exn_class ConnectionError = ''ConnectionError''"
| "exn_class AttributeError = ''AttributeError''"
| "exn_class (KeyError k) = ''KeyError''"
| "exn_class TypeError = ''TypeError''"
| "exn_class (MoodleSessionError m) = ''MoodleSessionError''"
| "exn_class (MoodleError m) = ''MoodleError''"
| "exn_class KeyboardInterrupt = ''KeyboardInterrupt''"

section \<open>permissions.py\<close>

subsection \<open>The HTTP world\<close>

text \<open>
  \<^verbatim>\<open>f"{base_url}/my/"\<close> is kept as the pair of the interpolated value and the literal
  suffix. A GET either raises (transport failure) or yields a response with a status
  code and a body. The server is a parameter: a function of the session and the URL.
\<close>

datatype url = Url pyval string

record response =
  status_code :: int
  "text" :: string

datatype http_result = Raises exn | Responds response

type_synonym network = "nat \<Rightarrow> url \<Rightarrow> http_result"

text \<open>
  The world: the \<^verbatim>\<open>_moodle_role\<close> attribute of every session object (\<open>None\<close> when the
  attribute is not set) and the HTTP GETs issued so far, oldest first.
\<close>

record world =
  moodle_role :: "nat \<Rightarrow> string option"
  http_log :: "(nat \<times> url) list"

text \<open>\<^verbatim>\<open>Response.raise_for_status()\<close> of the requests library: 4xx and 5xx raise.\<close>

definition raise_for_status :: "response \<Rightarrow> exn option" where
  "raise_for_status resp =
     (if 400 \<le> status_code resp \<and> status_code resp < 600
      then Some (HTTPError (status_code resp)) else None)"

text \<open>Python's \<^verbatim>\<open>needle in haystack\<close> on strings.\<close>

fun py_in :: "string \<Rightarrow> string \<Rightarrow> bool" where
  "py_in needle [] = (needle = [])"
| "py_in needle (c # cs) = (take (length needle) (c # cs) = needle \<or> py_in needle cs)"

definition siteadmin_marker :: string where
  "siteadmin_marker = ''data-key='' @ [CHR 0x22] @ ''siteadminnode'' @ [CHR 0x22]"

definition session_get :: "network \<Rightarrow> nat \<Rightarrow> url \<Rightarrow> world \<Rightarrow> http_result \<times> world" where
  "session_get net a u w = (net a u, w\<lparr>http_log := http_log w @ [(a, u)]\<rparr>)"

subsection \<open>ROLE_HIERARCHY and get_user_role\<close>

definition ROLE_HIERARCHY :: "string \<rightharpoonup> int" where
  "ROLE_HIERARCHY = [''user'' \<mapsto> 0, ''manager'' \<mapsto> 1, ''admin'' \<mapsto> 2]"

text \<open>
  \<^verbatim>\<open>get_user_role(session, base_url)\<close>. On a value that is not a session object,
  \<^verbatim>\<open>getattr(session, "_moodle_role", None)\<close> is \<^verbatim>\<open>None\<close> and \<^verbatim>\<open>session.get\<close> raises
  \<^verbatim>\<open>AttributeError\<close>. \<^verbatim>\<open>if cached:\<close> is Python truthiness: the attribute is set and is
  not the empty string.
\<close>

definition get_user_role ::
  "network \<Rightarrow> pyval \<Rightarrow> pyval \<Rightarrow> world \<Rightarrow> (exn + string) \<times> world" where
  "get_user_role net session base_url w =
     (case session of
        PSession a \<Rightarrow>
          (let cached = moodle_role w a in
           if cached \<noteq> None \<and> cached \<noteq> Some [] then (Inr (the cached), w)
           else
             (case session_get net a (Url base_url ''/my/'') w of
                (Raises e, w1) \<Rightarrow> (Inl e, w1)
              | (Responds resp, w1) \<Rightarrow>
                  (case raise_for_status resp of
                     Some e \<Rightarrow> (Inl e, w1)
                   | None \<Rightarrow>
                       if py_in siteadmin_marker (text resp)
                       then (Inr ''admin'',
                             w1\<lparr>moodle_role := (moodle_role w1)(a \<mapsto> ''admin'')\<rparr>)
                       else
                         (case session_get net a (Url base_url ''/course/management.php'') w1 of
                            (Raises e, w2) \<Rightarrow> (Inl e, w2)
                          | (Responds manage_resp, w2) \<Rightarrow>
                              (let role = (if status_code manage_resp = 200
                                           then ''manager'' else ''user'')
                               in (Inr role,
                                   w2\<lparr>moodle_role := (moodle_role w2)(a \<mapsto> role)\<rparr>))))))
      | _ \<Rightarrow> (Inl AttributeError, w))"

subsection \<open>requires_role\<close>

text \<open>
  \<^verbatim>\<open>kwargs\<close> is a dictionary from parameter names to values; \<^verbatim>\<open>kwargs.get(k)\<close> is
  \<^verbatim>\<open>None\<close> for a missing key. \<^verbatim>\<open>list(args).index(x)\<close> is the first position holding a
  value equal to \<^verbatim>\<open>x\<close>; its \<^verbatim>\<open>ValueError\<close> is the result \<open>None\<close>.
\<close>

definition kwargs_get :: "(string \<rightharpoonup> pyval) \<Rightarrow> string \<Rightarrow> pyval" where
  "kwargs_get kwargs k = (case kwargs k of None \<Rightarrow> PNone | Some v \<Rightarrow> v)"

fun isinstance_Session :: "pyval \<Rightarrow> bool" where
  "isinstance_Session (PSession a) = True"
| "isinstance_Session _ = False"

fun index :: "'a list \<Rightarrow> 'a \<Rightarrow> nat option" where
  "index [] x = None"
| "index (y # ys) x = (if y = x then Some 0 else map_option Suc (index ys x))"

text \<open>
  Lines 64 to 79 of \<^verbatim>\<open>wrapper\<close>: the values of \<^verbatim>\<open>session\<close> and \<^verbatim>\<open>base_url\<close> when the
  check of line 81 is reached.
\<close>

definition locate :: "pyval list \<Rightarrow> (string \<rightharpoonup> pyval) \<Rightarrow> pyval \<times> pyval" where
  "locate args kwargs =
     (let session = kwargs_get kwargs ''session'';
          base_url = kwargs_get kwargs ''base_url'';
          session = (if session = PNone
                     then (case find isinstance_Session args of
                             Some arg \<Rightarrow> arg | None \<Rightarrow> session)
                     else session);
          base_url = (if base_url = PNone \<and> session \<noteq> PNone
                      then (case index args session of
                              Some idx \<Rightarrow>
                                if length args > idx + 1 then args ! (idx + 1) else base_url
                            | None \<Rightarrow> base_url)
                      else base_url)
      in (session, base_url))"

definition config_message :: string where
  "config_message = ''Session and base_url are required for role verification.''"

definition role_message :: "string \<Rightarrow> string \<Rightarrow> string" where
  "role_message required current_role =
     ''Operation requires role '' @ [CHR 0x27] @ required @ [CHR 0x27]
       @ '', current role is '' @ [CHR 0x27] @ current_role @ [CHR 0x27] @ ''.''"

text \<open>
  The wrapped function takes the positional arguments, the keyword arguments and the
  world, and returns a result or raises; it may change the world.
  \<^verbatim>\<open>ROLE_HIERARCHY[k]\<close> raises \<^verbatim>\<open>KeyError\<close> on a key that is not in the table; the left
  operand of \<^verbatim>\<open><\<close> is evaluated first.
\<close>

type_synonym 'r pyfun = "pyval list \<Rightarrow> (string \<rightharpoonup> pyval) \<Rightarrow> world \<Rightarrow> (exn + 'r) \<times> world"

definition wrapper :: "network \<Rightarrow> string \<Rightarrow> 'r pyfun \<Rightarrow> 'r pyfun" where
  "wrapper net required func args kwargs w =
     (case locate args kwargs of
        (session, base_url) \<Rightarrow>
          if session = PNone \<or> base_url = PNone
          then (Inl (RoleError config_message), w)
          else
            (case get_user_role net session base_url w of
               (Inl e, w') \<Rightarrow> (Inl e, w')
             | (Inr current_role, w') \<Rightarrow>
                 (case ROLE_HIERARCHY current_role of
                    None \<Rightarrow> (Inl (KeyError current_role), w')
                  | Some rc \<Rightarrow>
                      (case ROLE_HIERARCHY required of
                         None \<Rightarrow> (Inl (KeyError required), w')
                       | Some rr \<Rightarrow>
                           if rc < rr
                           then (Inl (RoleError (role_message required current_role)), w')
                           else func args kwargs w'))))"

definition requires_role :: "network \<Rightarrow> string \<Rightarrow> 'r pyfun \<Rightarrow> 'r pyfun" where
  "requires_role net required = (\<lambda>func. wrapper net required func)"

section \<open>site.py\<close>

text \<open>
  The web service returns parsed JSON. A JSON object is a Python dictionary: an
  association list in insertion order, whose keys are distinct. Numbers are the
  integers; no claim depends on a fractional value.
\<close>

datatype json =
    JNull
  | JBool bool
  | JInt int
  | JStr string
  | JList "json list"
  | JObj "(string \<times> json) list"

text \<open>
  The dataclasses. A dataclass checks no types: a field holds whatever value was
  passed. The fields \<^verbatim>\<open>name\<close>, \<^verbatim>\<open>version\<close> of \<^verbatim>\<open>SiteFunction\<close> and \<^verbatim>\<open>name\<close>, \<^verbatim>\<open>value\<close> of
  \<^verbatim>\<open>AdvancedFeature\<close> carry a prefix, since \<^verbatim>\<open>SiteInfo\<close> has a \<^verbatim>\<open>version\<close> too.
\<close>

record SiteFunction =
  sf_name :: json
  sf_version :: json

record AdvancedFeature =
  af_name :: json
  af_value :: json

text \<open>
  After lines 69 to 74 the response dictionary holds raw JSON values next to lists of
  dataclass instances.
\<close>

datatype pyobj =
    Json json
  | SiteFunctions "SiteFunction list"
  | AdvancedFeatures "AdvancedFeature list"

record SiteInfo =
  sitename :: pyobj
  username :: pyobj
  firstname :: pyobj
  lastname :: pyobj
  fullname :: pyobj
  lang :: pyobj
  userid :: pyobj
  siteurl :: pyobj
  userpictureurl :: pyobj
  "functions" :: pyobj
  downloadfiles :: pyobj
  uploadfiles :: pyobj
  release :: pyobj
  version :: pyobj
  mobilecssurl :: pyobj
  advancedfeatures :: pyobj
  usercanmanageownfiles :: pyobj
  userquota :: pyobj
  usermaxuploadfilesize :: pyobj
  userhomepage :: pyobj
  userprivateaccesskey :: pyobj
  siteid :: pyobj
  sitecalendartype :: pyobj
  usercalendartype :: pyobj
  userissiteadmin :: pyobj
  theme :: pyobj
  limitconcurrentlogins :: pyobj
  policyagreed :: pyobj

definition SiteInfo_field_names :: "string list" where
  "SiteInfo_field_names =
     [''sitename'',
      ''username'',
      ''firstname'',
      ''lastname'',
      ''fullname'',
      ''lang'',
      ''userid'',
      ''siteurl'',
      ''userpictureurl'',
      ''functions'',
      ''downloadfiles'',
      ''uploadfiles'',
      ''release'',
      ''version'',
      ''mobilecssurl'',
      ''advancedfeatures'',
      ''usercanmanageownfiles'',
      ''userquota'',
      ''usermaxuploadfilesize'',
      ''userhomepage'',
      ''userprivateaccesskey'',
      ''siteid'',
      ''sitecalendartype'',
      ''usercalendartype'',
      ''userissiteadmin'',
      ''theme'',
      ''limitconcurrentlogins'',
      ''policyagreed'']"

text \<open>
  The generated \<^verbatim>\<open>__init__\<close> of a dataclass without defaults, called as \<^verbatim>\<open>C(**kw)\<close>:
  \<^verbatim>\<open>TypeError\<close> for a keyword that is no field, \<^verbatim>\<open>TypeError\<close> for a field without
  a keyword.
\<close>

definition init_accepts :: "string list \<Rightarrow> (string \<times> 'v) list \<Rightarrow> bool" where
  "init_accepts names kw =
     ((\<forall>k \<in> set (map fst kw). k \<in> set names) \<and> (\<forall>f \<in> set names. f \<in> set (map fst kw)))"

text \<open>\<^verbatim>\<open>SiteFunction(**function)\<close>: \<^verbatim>\<open>**\<close> on a value that is no mapping is a \<^verbatim>\<open>TypeError\<close>.\<close>

definition SiteFunction_init :: "json \<Rightarrow> exn + SiteFunction" where
  "SiteFunction_init function =
     (case function of
        JObj kw \<Rightarrow>
          if init_accepts [''name'', ''version''] kw
          then Inr \<lparr>sf_name = the (map_of kw ''name''), sf_version = the (map_of kw ''version'')\<rparr>
          else Inl TypeError
      | _ \<Rightarrow> Inl TypeError)"

definition AdvancedFeature_init :: "json \<Rightarrow> exn + AdvancedFeature" where
  "AdvancedFeature_init feature =
     (case feature of
        JObj kw \<Rightarrow>
          if init_accepts [''name'', ''value''] kw
          then Inr \<lparr>af_name = the (map_of kw ''name''), af_value = the (map_of kw ''value'')\<rparr>
          else Inl TypeError
      | _ \<Rightarrow> Inl TypeError)"

definition SiteInfo_init :: "(string \<times> pyobj) list \<Rightarrow> exn + SiteInfo" where
  "SiteInfo_init kw =
     (if init_accepts SiteInfo_field_names kw
      then Inr \<lparr>sitename = the (map_of kw ''sitename''),
               username = the (map_of kw ''username''),
               firstname = the (map_of kw ''firstname''),
               lastname = the (map_of kw ''lastname''),
               fullname = the (map_of kw ''fullname''),
               lang = the (map_of kw ''lang''),
               userid = the (map_of kw ''userid''),
               siteurl = the (map_of kw ''siteurl''),
               userpictureurl = the (map_of kw ''userpictureurl''),
               functions = the (map_of kw ''functions''),
               downloadfiles = the (map_of kw ''downloadfiles''),
               uploadfiles = the (map_of kw ''uploadfiles''),
               release = the (map_of kw ''release''),
               version = the (map_of kw ''version''),
               mobilecssurl = the (map_of kw ''mobilecssurl''),
               advancedfeatures = the (map_of kw ''advancedfeatures''),
               usercanmanageownfiles = the (map_of kw ''usercanmanageownfiles''),
               userquota = the (map_of kw ''userquota''),
               usermaxuploadfilesize = the (map_of kw ''usermaxuploadfilesize''),
               userhomepage = the (map_of kw ''userhomepage''),
               userprivateaccesskey = the (map_of kw ''userprivateaccesskey''),
               siteid = the (map_of kw ''siteid''),
               sitecalendartype = the (map_of kw ''sitecalendartype''),
               usercalendartype = the (map_of kw ''usercalendartype''),
               userissiteadmin = the (map_of kw ''userissiteadmin''),
               theme = the (map_of kw ''theme''),
               limitconcurrentlogins = the (map_of kw ''limitconcurrentlogins''),
               policyagreed = the (map_of kw ''policyagreed'')\<rparr>
      else Inl TypeError)"

text \<open>\<^verbatim>\<open>site_info.__dict__\<close>, as the command-line layer reads it.\<close>

definition SiteInfo_dict :: "SiteInfo \<Rightarrow> (string \<times> pyobj) list" where
  "SiteInfo_dict si =
     [(''sitename'', sitename si),
      (''username'', username si),
      (''firstname'', firstname si),
      (''lastname'', lastname si),
      (''fullname'', fullname si),
      (''lang'', lang si),
      (''userid'', userid si),
      (''siteurl'', siteurl si),
      (''userpictureurl'', userpictureurl si),
      (''functions'', functions si),
      (''downloadfiles'', downloadfiles si),
      (''uploadfiles'', uploadfiles si),
      (''release'', release si),
      (''version'', version si),
      (''mobilecssurl'', mobilecssurl si),
      (''advancedfeatures'', advancedfeatures si),
      (''usercanmanageownfiles'', usercanmanageownfiles si),
      (''userquota'', userquota si),
      (''usermaxuploadfilesize'', usermaxuploadfilesize si),
      (''userhomepage'', userhomepage si),
      (''userprivateaccesskey'', userprivateaccesskey si),
      (''siteid'', siteid si),
      (''sitecalendartype'', sitecalendartype si),
      (''usercalendartype'', usercalendartype si),
      (''userissiteadmin'', userissiteadmin si),
      (''theme'', theme si),
      (''limitconcurrentlogins'', limitconcurrentlogins si),
      (''policyagreed'', policyagreed si)]"

text \<open>
  \<^verbatim>\<open>for x in v\<close> on a JSON value: a list yields its elements, a dictionary its keys, a
  string its characters; the others are not iterable.
\<close>

fun py_iter :: "json \<Rightarrow> exn + json list" where
  "py_iter (JList xs) = Inr xs"
| "py_iter (JObj kvs) = Inr (map (\<lambda>kv. JStr (fst kv)) kvs)"
| "py_iter (JStr s) = Inr (map (\<lambda>c. JStr [c]) s)"
| "py_iter _ = Inl TypeError"

text \<open>A list comprehension \<^verbatim>\<open>[f(x) for x in xs]\<close>: the first raise ends it.\<close>

fun comprehension :: "('a \<Rightarrow> exn + 'b) \<Rightarrow> 'a list \<Rightarrow> exn + 'b list" where
  "comprehension f [] = Inr []"
| "comprehension f (x # xs) =
     (case f x of
        Inl e \<Rightarrow> Inl e
      | Inr y \<Rightarrow> (case comprehension f xs of Inl e \<Rightarrow> Inl e | Inr ys \<Rightarrow> Inr (y # ys)))"

text \<open>
  \<^verbatim>\<open>[C(**x) for x in v]\<close> for a value \<open>v\<close> of the response dictionary. A list of
  dataclass instances is iterable, but an instance is no mapping.
\<close>

definition records_of :: "(json \<Rightarrow> exn + 'a) \<Rightarrow> pyobj \<Rightarrow> exn + 'a list" where
  "records_of init v =
     (case v of
        Json j \<Rightarrow> (case py_iter j of Inl e \<Rightarrow> Inl e | Inr xs \<Rightarrow> comprehension init xs)
      | SiteFunctions fs \<Rightarrow> if fs = [] then Inr [] else Inl TypeError
      | AdvancedFeatures afs \<Rightarrow> if afs = [] then Inr [] else Inl TypeError)"

text \<open>
  Lines 69 to 75 of \<^verbatim>\<open>get_site_info\<close>, on the value \<^verbatim>\<open>session.call\<close> returned.
  \<^verbatim>\<open>response["functions"]\<close> is a \<^verbatim>\<open>TypeError\<close> on a value that is no dictionary and a
  \<^verbatim>\<open>KeyError\<close> on a dictionary without the key. Assigning to a key of a dictionary
  replaces the value in place, or appends the key.
\<close>

definition site_info_of :: "json \<Rightarrow> exn + SiteInfo" where
  "site_info_of r =
     (case r of
        JObj kvs \<Rightarrow>
          (let response = map (\<lambda>kv. (fst kv, Json (snd kv))) kvs in
           case map_of response ''functions'' of
             None \<Rightarrow> Inl (KeyError ''functions'')
           | Some fv \<Rightarrow>
               (case records_of SiteFunction_init fv of
                  Inl e \<Rightarrow> Inl e
                | Inr fs \<Rightarrow>
                    (let response = AList.update ''functions'' (SiteFunctions fs) response in
                     case map_of response ''advancedfeatures'' of
                       None \<Rightarrow> Inl (KeyError ''advancedfeatures'')
                     | Some av \<Rightarrow>
                         (case records_of AdvancedFeature_init av of
                            Inl e \<Rightarrow> Inl e
                          | Inr afs \<Rightarrow>
                              SiteInfo_init
                                (AList.update ''advancedfeatures'' (AdvancedFeatures afs)
                                   response)))))
      | _ \<Rightarrow> Inl TypeError)"

text \<open>
  \<^verbatim>\<open>MoodleSession.call\<close> lives in \<^verbatim>\<open>session.py\<close>, which is not part of the sources at
  hand: what the web service answers is a parameter of the session, and the session
  records the calls made on it, oldest first.
\<close>

record MoodleSession =
  ws_answer :: "string \<Rightarrow> exn + json"
  ws_calls :: "string list"

definition session_call :: "MoodleSession \<Rightarrow> string \<Rightarrow> (exn + json) \<times> MoodleSession" where
  "session_call s f = (ws_answer s f, s\<lparr>ws_calls := ws_calls s @ [f]\<rparr>)"

definition get_site_info :: "MoodleSession \<Rightarrow> (exn + SiteInfo) \<times> MoodleSession" where
  "get_site_info session =
     (case session_call session ''core_webservice_get_site_info'' of
        (Inl e, s') \<Rightarrow> (Inl e, s')
      | (Inr response, s') \<Rightarrow> (site_info_of response, s'))"

section \<open>example_script_with_progressbar.py\<close>

text \<open>
  The script drives library functions that are not part of the sources at hand
  (\<^verbatim>\<open>MoodleSession.get\<close>, \<^verbatim>\<open>create_course\<close>, \<^verbatim>\<open>delete_course\<close>, ...). They are parameters
  acting on a remote platform of any type \<open>'w\<close>. The state of a run is the platform,
  the lines printed on the console and the \<^verbatim>\<open>delete_course\<close> calls made, oldest first.
\<close>

datatype message =
    Starting
  | FixturesNotFound
  | FixturesHint
  | ErrorLoggingIn exn
  | MainPhase string
  | ErrorOccurred exn
  | WillAttemptCleanup
  | CleanupPhase
  | Deleting int
  | Deleted int
  | ErrorDeleting int exn
  | CleanupCompleted

record 'w run =
  remote :: 'w
  console :: "message list"
  delete_calls :: "int list"

definition console_print :: "message \<Rightarrow> 'w run \<Rightarrow> 'w run" where
  "console_print m st = st\<lparr>console := console st @ [m]\<rparr>"

type_synonym 'w delete_course = "int \<Rightarrow> 'w \<Rightarrow> exn option \<times> 'w"

definition call_delete_course :: "'w delete_course \<Rightarrow> int \<Rightarrow> 'w run \<Rightarrow> exn option \<times> 'w run" where
  "call_delete_course delete_course course_id st =
     (case delete_course course_id (remote st) of
        (r, w') \<Rightarrow> (r, st\<lparr>remote := w', delete_calls := delete_calls st @ [course_id]\<rparr>))"

text \<open>
  Lines 328 to 338: the loop of the cleanup phase. \<^verbatim>\<open>except Exception\<close> catches what
  derives from \<^verbatim>\<open>Exception\<close>; anything else leaves the loop.
\<close>

fun cleanup_loop :: "'w delete_course \<Rightarrow> int list \<Rightarrow> 'w run \<Rightarrow> exn option \<times> 'w run" where
  "cleanup_loop delete_course [] st = (None, st)"
| "cleanup_loop delete_course (course_id # ids) st =
     (case call_delete_course delete_course course_id (console_print (Deleting course_id) st) of
        (None, st') \<Rightarrow> cleanup_loop delete_course ids (console_print (Deleted course_id) st')
      | (Some e, st') \<Rightarrow>
          if is_Exception e
          then cleanup_loop delete_course ids (console_print (ErrorDeleting course_id e) st')
          else (Some e, st'))"

text \<open>Lines 326 to 339: the body of \<^verbatim>\<open>finally\<close>.\<close>

definition cleanup :: "'w delete_course \<Rightarrow> int list \<Rightarrow> 'w run \<Rightarrow> exn option \<times> 'w run" where
  "cleanup delete_course created_course_ids st =
     (if created_course_ids \<noteq> []
      then (case cleanup_loop delete_course created_course_ids (console_print CleanupPhase st) of
              (None, st') \<Rightarrow> (None, console_print CleanupCompleted st')
            | (Some e, st') \<Rightarrow> (Some e, st'))
      else (None, st))"

text \<open>
  The main phase (lines 143 to 319, the body of \<^verbatim>\<open>try\<close>) is a parameter: it ends
  normally or raises, and leaves the list \<^verbatim>\<open>created_course_ids\<close>.
\<close>

type_synonym 'w main_phase = "'w run \<Rightarrow> (exn option \<times> int list) \<times> 'w run"

text \<open>
  Lines 142 to 339: \<^verbatim>\<open>try\<close>, \<^verbatim>\<open>except Exception\<close>, \<^verbatim>\<open>finally\<close>. An exception the handler
  does not catch is raised again after \<^verbatim>\<open>finally\<close>, unless \<^verbatim>\<open>finally\<close> raises itself.
\<close>

definition try_main_phase ::
  "'w main_phase \<Rightarrow> 'w delete_course \<Rightarrow> 'w run \<Rightarrow> exn option \<times> 'w run" where
  "try_main_phase main_phase delete_course st =
     (case main_phase st of
        ((raised, created_course_ids), st1) \<Rightarrow>
          (let (pending, st2) =
                 (case raised of
                    None \<Rightarrow> (None, st1)
                  | Some e \<Rightarrow>
                      if is_Exception e
                      then (None, console_print WillAttemptCleanup
                                    (console_print (ErrorOccurred e) st1))
                      else (Some e, st1))
           in case cleanup delete_course created_course_ids st2 of
                (Some e', st3) \<Rightarrow> (Some e', st3)
              | (None, st3) \<Rightarrow> (pending, st3)))"

text \<open>
  \<^verbatim>\<open>main()\<close>. \<^verbatim>\<open>fixtures_is_dir\<close> is \<^verbatim>\<open>FIXTURES_DIR.is_dir()\<close>; \<^verbatim>\<open>MoodleSession_get\<close> is
  the login of lines 119 to 127, of which only \<^verbatim>\<open>MoodleSessionError\<close> is caught.
\<close>

definition main ::
  "bool \<Rightarrow> ('w \<Rightarrow> exn option \<times> 'w) \<Rightarrow> 'w main_phase \<Rightarrow> 'w delete_course \<Rightarrow> 'w run
     \<Rightarrow> exn option \<times> 'w run" where
  "main fixtures_is_dir MoodleSession_get main_phase delete_course st0 =
     (let st = console_print Starting st0 in
      if \<not> fixtures_is_dir then (None, console_print FixturesHint (console_print FixturesNotFound st))
      else
        (case MoodleSession_get (remote st) of
           (Some e, w') \<Rightarrow>
             (case e of
                MoodleSessionError m \<Rightarrow> (None, console_print (ErrorLoggingIn e) (st\<lparr>remote := w'\<rparr>))
              | _ \<Rightarrow> (Some e, st\<lparr>remote := w'\<rparr>))
         | (None, w') \<Rightarrow> try_main_phase main_phase delete_course (st\<lparr>remote := w'\<rparr>)))"

section \<open>Concrete inputs\<close>

text \<open>
  A fresh world, three servers (for a plain user, a manager and an administrator), a
  server whose dashboard answers 500, and the wrapped function of
  \<^verbatim>\<open>tests/test_permissions.py\<close>, which returns 1.
\<close>

definition empty_world :: world where
  "empty_world = \<lparr>moodle_role = (\<lambda>a. None), http_log = []\<rparr>"

definition page :: "int \<Rightarrow> string \<Rightarrow> http_result" where
  "page st body = Responds \<lparr>status_code = st, text = body\<rparr>"

definition example_net :: "http_result \<Rightarrow> http_result \<Rightarrow> network" where
  "example_net dashboard management =
     (\<lambda>a u. case u of Url b suffix \<Rightarrow> if suffix = ''/my/'' then dashboard else management)"

definition dummy :: "int pyfun" where
  "dummy args kwargs w = (Inr 1, w)"

definition net_user :: network where
  "net_user = example_net (page 200 ''<html>dashboard</html>'') (page 403 ''denied'')"

definition net_manager :: network where
  "net_manager = example_net (page 200 ''<html>dashboard</html>'') (page 200 ''courses'')"

definition admin_dashboard :: string where
  "admin_dashboard = ''<li '' @ siteadmin_marker @ ''>''"

definition net_admin :: network where
  "net_admin = example_net (page 200 admin_dashboard) (page 200 ''courses'')"

definition net_dashboard_down :: network where
  "net_dashboard_down = example_net (page 500 ''server error'') (page 200 ''courses'')"

definition example_url :: pyval where
  "example_url = PStr ''https://example.com''"



text \<open>
  A complete answer of \<^verbatim>\<open>core_webservice_get_site_info\<close>, a session that answers with a
  given dictionary, the record expected for the complete answer, and list elements that
  carry one key too many.
\<close>

definition example_fields :: "(string \<times> json) list" where
  "example_fields =
     [(''sitename'', JStr ''Moodle''),
      (''username'', JStr ''admin''),
      (''firstname'', JStr ''Admin''),
      (''lastname'', JStr ''User''),
      (''fullname'', JStr ''Admin User''),
      (''lang'', JStr ''en''),
      (''userid'', JInt 2),
      (''siteurl'', JStr ''https://example.com''),
      (''userpictureurl'', JStr ''https://example.com/pic''),
      (''functions'', JList [JObj [(''name'', JStr ''core_course_get_courses''), (''version'', JStr ''2023100900'')], JObj [(''name'', JStr ''core_webservice_get_site_info''), (''version'', JStr ''2023100900'')]]),
      (''downloadfiles'', JInt 1),
      (''uploadfiles'', JInt 1),
      (''release'', JStr ''4.3''),
      (''version'', JStr ''2023100900''),
      (''mobilecssurl'', JStr []),
      (''advancedfeatures'', JList [JObj [(''name'', JStr ''usecomments''), (''value'', JInt 1)]]),
      (''usercanmanageownfiles'', JBool True),
      (''userquota'', JInt 0),
      (''usermaxuploadfilesize'', JInt (-1)),
      (''userhomepage'', JInt 1),
      (''userprivateaccesskey'', JStr ''key''),
      (''siteid'', JInt 1),
      (''sitecalendartype'', JStr ''gregorian''),
      (''usercalendartype'', JStr ''gregorian''),
      (''userissiteadmin'', JBool True),
      (''theme'', JStr ''boost''),
      (''limitconcurrentlogins'', JInt 0),
      (''policyagreed'', JInt 0)]"

definition example_session :: "(string \<times> json) list \<Rightarrow> MoodleSession" where
  "example_session kvs = \<lparr>ws_answer = (\<lambda>f. Inr (JObj kvs)), ws_calls = []\<rparr>"

definition example_site_info :: SiteInfo where
  "example_site_info =
     \<lparr>sitename = Json (JStr ''Moodle''),
      username = Json (JStr ''admin''),
      firstname = Json (JStr ''Admin''),
      lastname = Json (JStr ''User''),
      fullname = Json (JStr ''Admin User''),
      lang = Json (JStr ''en''),
      userid = Json (JInt 2),
      siteurl = Json (JStr ''https://example.com''),
      userpictureurl = Json (JStr ''https://example.com/pic''),
      functions = SiteFunctions [\<lparr>sf_name = JStr ''core_course_get_courses'', sf_version = JStr ''2023100900''\<rparr>, \<lparr>sf_name = JStr ''core_webservice_get_site_info'', sf_version = JStr ''2023100900''\<rparr>],
      downloadfiles = Json (JInt 1),
      uploadfiles = Json (JInt 1),
      release = Json (JStr ''4.3''),
      version = Json (JStr ''2023100900''),
      mobilecssurl = Json (JStr []),
      advancedfeatures = AdvancedFeatures [\<lparr>af_name = JStr ''usecomments'', af_value = JInt 1\<rparr>],
      usercanmanageownfiles = Json (JBool True),
      userquota = Json (JInt 0),
      usermaxuploadfilesize = Json (JInt (-1)),
      userhomepage = Json (JInt 1),
      userprivateaccesskey = Json (JStr ''key''),
      siteid = Json (JInt 1),
      sitecalendartype = Json (JStr ''gregorian''),
      usercalendartype = Json (JStr ''gregorian''),
      userissiteadmin = Json (JBool True),
      theme = Json (JStr ''boost''),
      limitconcurrentlogins = Json (JInt 0),
      policyagreed = Json (JInt 0)\<rparr>"

definition extra_function :: json where
  "extra_function = JObj [(''name'', JStr ''core_user_get_users''), (''version'', JStr ''2023100900''),
                          (''services'', JStr ''moodle_mobile_app'')]"

definition extra_feature :: json where
  "extra_feature = JObj [(''name'', JStr ''usetags''), (''value'', JInt 1), (''component'', JStr ''core'')]"

text \<open>
  A run of the script on a platform that is the list of its course ids: the main phase
  creates courses 3 and 4, records 3, 9 and 4, and fails; deleting a course that does
  not exist raises.
\<close>

definition example_login :: "int list \<Rightarrow> exn option \<times> int list" where
  "example_login w = (None, w)"

definition example_delete_course :: "int list delete_course" where
  "example_delete_course course_id w =
     (if course_id \<in> set w then (None, removeAll course_id w)
      else (Some (MoodleError ''course not found''), w))"

definition example_main_phase :: "int list main_phase" where
  "example_main_phase st =
     ((Some (MoodleError ''upload failed''), [3, 9, 4]),
      st\<lparr>remote := 3 # 4 # remote st, console := console st @ [MainPhase ''Course created'']\<rparr>)"

definition fresh_run :: "int list run" where
  "fresh_run = \<lparr>remote = [1], console = [], delete_calls = []\<rparr>"

section \<open>Properties of permissions.py\<close>

subsection \<open>Evaluating the concrete inputs\<close>

lemmas example_defs = empty_world_def page_def example_net_def net_user_def net_manager_def
  net_admin_def admin_dashboard_def net_dashboard_down_def example_url_def siteadmin_marker_def

lemma user_run:
  "get_user_role net_user (PSession 0) example_url empty_world
     = (Inr ''user'', \<lparr>moodle_role = (\<lambda>a. None)(0 \<mapsto> ''user''),
          http_log = [(0, Url example_url ''/my/''), (0, Url example_url ''/course/management.php'')]\<rparr>)"
  by (simp add: get_user_role_def session_get_def raise_for_status_def Let_def example_defs)

lemma admin_run:
  "get_user_role net_admin (PSession 0) example_url empty_world
     = (Inr ''admin'', \<lparr>moodle_role = (\<lambda>a. None)(0 \<mapsto> ''admin''),
          http_log = [(0, Url example_url ''/my/'')]\<rparr>)"
  by (simp add: get_user_role_def session_get_def raise_for_status_def Let_def example_defs)

subsection \<open>Locating the arguments\<close>

lemma index_None_iff: "index xs x = None \<longleftrightarrow> x \<notin> set xs"
  by (induction xs) auto

lemma index_Some_less: "index xs x = Some i \<Longrightarrow> i < length xs \<and> xs ! i = x"
  by (induction xs arbitrary: i) (auto split: if_splits)

lemma find_None_set: "find P xs = None \<longleftrightarrow> (\<forall>x \<in> set xs. \<not> P x)"
  by (induction xs) auto



lemma locate_no_session_iff:
  "fst (locate args kwargs) = PNone \<longleftrightarrow>
     kwargs_get kwargs ''session'' = PNone \<and> (\<forall>a \<in> set args. \<not> isinstance_Session a)"
proof -
  have "\<And>a. find isinstance_Session args = Some a \<Longrightarrow> a \<noteq> PNone"
    by (auto simp: find_Some_iff)
  then show ?thesis
    by (auto simp: locate_def Let_def find_None_set[symmetric] split: option.splits)
qed

lemma locate_no_base_url_iff:
  "snd (locate args kwargs) = PNone \<longleftrightarrow>
     kwargs_get kwargs ''base_url'' = PNone
     \<and> (fst (locate args kwargs) = PNone
        \<or> (case index args (fst (locate args kwargs)) of
              None \<Rightarrow> True
            | Some idx \<Rightarrow> length args \<le> idx + 1 \<or> args ! (idx + 1) = PNone))"
  by (auto simp: locate_def Let_def split: option.splits)

subsection \<open>The role lookup\<close>

lemma get_user_role_cached:
  "moodle_role w a = Some r \<Longrightarrow> r \<noteq> [] \<Longrightarrow> get_user_role net (PSession a) b w = (Inr r, w)"
  by (simp add: get_user_role_def)

lemma get_user_role_sets_cache:
  assumes "get_user_role net (PSession a) b w = (Inr r, w')"
  shows "moodle_role w' a = Some r \<and> r \<noteq> []"
  using assms
  by (auto simp: get_user_role_def session_get_def Let_def
      split: if_splits prod.splits http_result.splits option.splits)

lemma get_user_role_log_bound:
  "length (http_log (snd (get_user_role net s b w))) \<le> length (http_log w) + 2"
  by (auto simp: get_user_role_def session_get_def Let_def
      split: pyval.splits prod.splits http_result.splits option.splits)

lemma get_user_role_uncached:
  assumes "moodle_role w a = None \<or> moodle_role w a = Some []"
  shows "get_user_role net (PSession a) b w =
     (case net a (Url b ''/my/'') of
        Raises e \<Rightarrow> (Inl e, w\<lparr>http_log := http_log w @ [(a, Url b ''/my/'')]\<rparr>)
      | Responds resp \<Rightarrow>
          if 400 \<le> status_code resp \<and> status_code resp < 600
          then (Inl (HTTPError (status_code resp)), w\<lparr>http_log := http_log w @ [(a, Url b ''/my/'')]\<rparr>)
          else if py_in siteadmin_marker (text resp)
          then (Inr ''admin'', w\<lparr>http_log := http_log w @ [(a, Url b ''/my/'')],
                                  moodle_role := (moodle_role w)(a \<mapsto> ''admin'')\<rparr>)
          else (case net a (Url b ''/course/management.php'') of
                  Raises e \<Rightarrow> (Inl e, w\<lparr>http_log := http_log w @ [(a, Url b ''/my/''), (a, Url b ''/course/management.php'')]\<rparr>)
                | Responds manage_resp \<Rightarrow>
                    (Inr (if status_code manage_resp = 200 then ''manager'' else ''user''),
                     w\<lparr>http_log := http_log w @ [(a, Url b ''/my/''), (a, Url b ''/course/management.php'')],
                       moodle_role := (moodle_role w)(a \<mapsto> (if status_code manage_resp = 200 then ''manager'' else ''user''))\<rparr>)))"
  using assms
  by (auto simp: get_user_role_def session_get_def raise_for_status_def Let_def
      split: http_result.splits)

subsection \<open>Specified properties\<close>

text \<open>
  C1. When the wrapper has located a session and a base URL and the role lookup returns
  a role, a role of rank below the rank of \<open>required\<close> makes the call raise
  \<^verbatim>\<open>RoleError\<close>, whatever the wrapped function is; the world is the one the lookup
  left, so the wrapped function did not run. A role of rank at least the required one
  makes the call the wrapped function's call, on the original arguments and the world
  the lookup left, with its result unchanged.
\<close>

theorem requires_role_gate:
  assumes "locate args kwargs = (session, base_url)"
    and "session \<noteq> PNone" and "base_url \<noteq> PNone"
    and "get_user_role net session base_url w = (Inr current_role, w')"
    and "ROLE_HIERARCHY current_role = Some rc"
    and "ROLE_HIERARCHY required = Some rr"
  shows "(rc < rr \<longrightarrow>
           requires_role net required func args kwargs w
             = (Inl (RoleError (role_message required current_role)), w'))
       \<and> (rr \<le> rc \<longrightarrow>
           requires_role net required func args kwargs w = func args kwargs w')"
  using assms by (simp add: requires_role_def wrapper_def)

theorem requires_role_gate_witness:
  "requires_role net_user ''manager'' dummy [PSession 0, example_url] Map.empty empty_world
     = (Inl (RoleError (role_message ''manager'' ''user'')),
        \<lparr>moodle_role = (\<lambda>a. None)(0 \<mapsto> ''user''),
          http_log = [(0, Url example_url ''/my/''), (0, Url example_url ''/course/management.php'')]\<rparr>)
   \<and> fst (requires_role net_admin ''manager'' dummy [PSession 0, example_url] Map.empty empty_world)
     = Inr 1"
proof -
  have loc: "locate [PSession 0, example_url] Map.empty = (PSession 0, example_url)"
    by (simp add: locate_def kwargs_get_def example_url_def)
  have u: "example_url \<noteq> PNone" by (simp add: example_url_def)
  have r0: "ROLE_HIERARCHY ''user'' = Some 0" and r1: "ROLE_HIERARCHY ''manager'' = Some 1"
    and r2: "ROLE_HIERARCHY ''admin'' = Some 2"
    by (simp_all add: ROLE_HIERARCHY_def)
  from requires_role_gate[OF loc _ u user_run r0 r1, of dummy]
       requires_role_gate[OF loc _ u admin_run r2 r1, of dummy]
  show ?thesis by (simp add: dummy_def)
qed

text \<open>
  C3. Once \<^verbatim>\<open>get_user_role\<close> has returned a role for a session object, every later call
  on that object, with any server and any base URL, returns that role and leaves the
  world as it is: no HTTP request is logged. The world being unchanged, the same holds
  for the call after it.
\<close>

theorem get_user_role_memoized:
  assumes "get_user_role net (PSession a) base_url w = (Inr role, w')"
  shows "get_user_role net' (PSession a) base_url' w' = (Inr role, w')
       \<and> http_log (snd (get_user_role net' (PSession a) base_url' w')) = http_log w'"
  using get_user_role_sets_cache[OF assms] by (simp add: get_user_role_cached)

theorem get_user_role_memoized_witness:
  "get_user_role net_admin (PSession 0) (PStr ''https://other.example'')
     (snd (get_user_role net_user (PSession 0) example_url empty_world))
   = (Inr ''user'', snd (get_user_role net_user (PSession 0) example_url empty_world))"
  using get_user_role_memoized[of net_user 0 example_url empty_world "''user''" _ net_admin "PStr ''https://other.example''"]
  by (simp add: user_run)

text \<open>
  C4, as amended. \<^verbatim>\<open>get_user_role\<close> issues at most two GETs. A cached role is returned
  as it is, without a GET. Without a cached role: a dashboard GET that raises, or that
  answers with a status from 400 to 599, makes the call raise; otherwise a dashboard
  body with the administrator marker gives \<^verbatim>\<open>admin\<close> after that one GET; otherwise
  the management page decides, \<^verbatim>\<open>manager\<close> on status 200 and \<^verbatim>\<open>user\<close> on any other
  status, and a GET that raises there makes the call raise. A role that is returned is
  one of the three levels, provided the cached one was.
\<close>

theorem get_user_role_decision:
  "length (http_log (snd (get_user_role net (PSession a) b w))) \<le> length (http_log w) + 2
   \<and> (\<forall>r. moodle_role w a = Some r \<and> r \<noteq> [] \<longrightarrow>
          get_user_role net (PSession a) b w = (Inr r, w))
   \<and> (moodle_role w a = None \<or> moodle_role w a = Some [] \<longrightarrow>
        (\<forall>e. net a (Url b ''/my/'') = Raises e \<longrightarrow>
           fst (get_user_role net (PSession a) b w) = Inl e)
      \<and> (\<forall>resp. net a (Url b ''/my/'') = Responds resp \<longrightarrow>
          (400 \<le> status_code resp \<and> status_code resp < 600 \<longrightarrow>
             fst (get_user_role net (PSession a) b w) = Inl (HTTPError (status_code resp)))
        \<and> (\<not> (400 \<le> status_code resp \<and> status_code resp < 600) \<longrightarrow>
            (py_in siteadmin_marker (text resp) \<longrightarrow>
               fst (get_user_role net (PSession a) b w) = Inr ''admin''
             \<and> http_log (snd (get_user_role net (PSession a) b w))
                 = http_log w @ [(a, Url b ''/my/'')])
          \<and> (\<not> py_in siteadmin_marker (text resp) \<longrightarrow>
              (\<forall>e. net a (Url b ''/course/management.php'') = Raises e \<longrightarrow>
                 fst (get_user_role net (PSession a) b w) = Inl e)
            \<and> (\<forall>manage_resp. net a (Url b ''/course/management.php'') = Responds manage_resp \<longrightarrow>
                 fst (get_user_role net (PSession a) b w)
                   = Inr (if status_code manage_resp = 200 then ''manager'' else ''user'')
               \<and> http_log (snd (get_user_role net (PSession a) b w))
                   = http_log w @ [(a, Url b ''/my/''), (a, Url b ''/course/management.php'')])))))
   \<and> (\<forall>r. fst (get_user_role net (PSession a) b w) = Inr r
          \<and> (\<forall>c. moodle_role w a = Some c \<and> c \<noteq> [] \<longrightarrow> c \<in> {''user'', ''manager'', ''admin''})
        \<longrightarrow> r \<in> {''user'', ''manager'', ''admin''})"
proof (intro conjI)
  show "length (http_log (snd (get_user_role net (PSession a) b w))) \<le> length (http_log w) + 2"
    by (rule get_user_role_log_bound)
  show "\<forall>r. moodle_role w a = Some r \<and> r \<noteq> [] \<longrightarrow> get_user_role net (PSession a) b w = (Inr r, w)"
    by (simp add: get_user_role_cached)
  show "moodle_role w a = None \<or> moodle_role w a = Some [] \<longrightarrow>
        (\<forall>e. net a (Url b ''/my/'') = Raises e \<longrightarrow>
           fst (get_user_role net (PSession a) b w) = Inl e)
      \<and> (\<forall>resp. net a (Url b ''/my/'') = Responds resp \<longrightarrow>
          (400 \<le> status_code resp \<and> status_code resp < 600 \<longrightarrow>
             fst (get_user_role net (PSession a) b w) = Inl (HTTPError (status_code resp)))
        \<and> (\<not> (400 \<le> status_code resp \<and> status_code resp < 600) \<longrightarrow>
            (py_in siteadmin_marker (text resp) \<longrightarrow>
               fst (get_user_role net (PSession a) b w) = Inr ''admin''
             \<and> http_log (snd (get_user_role net (PSession a) b w))
                 = http_log w @ [(a, Url b ''/my/'')])
          \<and> (\<not> py_in siteadmin_marker (text resp) \<longrightarrow>
              (\<forall>e. net a (Url b ''/course/management.php'') = Raises e \<longrightarrow>
                 fst (get_user_role net (PSession a) b w) = Inl e)
            \<and> (\<forall>manage_resp. net a (Url b ''/course/management.php'') = Responds manage_resp \<longrightarrow>
                 fst (get_user_role net (PSession a) b w)
                   = Inr (if status_code manage_resp = 200 then ''manager'' else ''user'')
               \<and> http_log (snd (get_user_role net (PSession a) b w))
                   = http_log w @ [(a, Url b ''/my/''), (a, Url b ''/course/management.php'')]))))"
    by (clarify, simp add: get_user_role_uncached)
  show "\<forall>r. fst (get_user_role net (PSession a) b w) = Inr r
          \<and> (\<forall>c. moodle_role w a = Some c \<and> c \<noteq> [] \<longrightarrow> c \<in> {''user'', ''manager'', ''admin''})
        \<longrightarrow> r \<in> {''user'', ''manager'', ''admin''}"
  proof (cases "moodle_role w a = None \<or> moodle_role w a = Some []")
    case True
    then show ?thesis
      by (simp only: get_user_role_uncached[OF True]) (auto split: http_result.splits if_splits)
  next
    case False
    then obtain c where "moodle_role w a = Some c" "c \<noteq> []" by auto
    then show ?thesis by (simp add: get_user_role_cached)
  qed
qed

theorem get_user_role_decision_witness:
  "fst (get_user_role net_manager (PSession 0) example_url empty_world) = Inr ''manager''
   \<and> http_log (snd (get_user_role net_manager (PSession 0) example_url empty_world))
       = [(0, Url example_url ''/my/''), (0, Url example_url ''/course/management.php'')]
   \<and> fst (get_user_role net_admin (PSession 0) example_url empty_world) = Inr ''admin''
   \<and> http_log (snd (get_user_role net_admin (PSession 0) example_url empty_world))
       = [(0, Url example_url ''/my/'')]"
proof -
  have n: "moodle_role empty_world 0 = None" "http_log empty_world = []"
    by (simp_all add: empty_world_def)
  have m1: "net_manager 0 (Url example_url ''/my/'') = Responds \<lparr>status_code = 200, text = ''<html>dashboard</html>''\<rparr>"
    and m2: "net_manager 0 (Url example_url ''/course/management.php'') = Responds \<lparr>status_code = 200, text = ''courses''\<rparr>"
    and a1: "net_admin 0 (Url example_url ''/my/'') = Responds \<lparr>status_code = 200, text = admin_dashboard\<rparr>"
    by (simp_all add: example_net_def page_def net_manager_def net_admin_def)
  have p1: "\<not> py_in siteadmin_marker ''<html>dashboard</html>''"
    and p2: "py_in siteadmin_marker admin_dashboard"
    by (simp_all add: siteadmin_marker_def admin_dashboard_def)
  from get_user_role_decision[of net_manager 0 example_url empty_world]
       get_user_role_decision[of net_admin 0 example_url empty_world]
  show ?thesis
    using n m1 m2 a1 p1 p2 by (simp del: py_in.simps)
qed

text \<open>
  C4 as stated fails: the dashboard answers 500 and has no marker, the management page
  answers 200, and the call raises \<^verbatim>\<open>HTTPError\<close> instead of returning \<^verbatim>\<open>manager\<close>.
\<close>

theorem get_user_role_dashboard_error_counterexample:
  "net_dashboard_down 0 (Url example_url ''/my/'') = page 500 ''server error''
   \<and> \<not> py_in siteadmin_marker ''server error''
   \<and> net_dashboard_down 0 (Url example_url ''/course/management.php'') = page 200 ''courses''
   \<and> moodle_role empty_world 0 = None
   \<and> fst (get_user_role net_dashboard_down (PSession 0) example_url empty_world) = Inl (HTTPError 500)
   \<and> fst (get_user_role net_dashboard_down (PSession 0) example_url empty_world) \<noteq> Inr ''manager''"
  by (simp add: get_user_role_def session_get_def raise_for_status_def Let_def example_defs)

text \<open>
  C5, as amended. When the wrapper locates no session or no base URL, the call raises
  \<^verbatim>\<open>RoleError\<close> with the configuration message and the world is untouched: no role
  lookup, no call of the wrapped function. The error is of the class of the
  insufficient-role error, \<^verbatim>\<open>RoleError\<close>; only its message tells it apart.
\<close>

theorem requires_role_config_error:
  assumes "fst (locate args kwargs) = PNone \<or> snd (locate args kwargs) = PNone"
  shows "requires_role net required func args kwargs w = (Inl (RoleError config_message), w)
       \<and> (\<forall>current_role.
             exn_class (RoleError config_message)
               = exn_class (RoleError (role_message required current_role))
           \<and> config_message \<noteq> role_message required current_role)"
  using assms
  by (auto simp: requires_role_def wrapper_def config_message_def role_message_def
      split: prod.splits)

theorem requires_role_config_error_witness:
  "requires_role net_admin ''user'' dummy [example_url] Map.empty empty_world
     = (Inl (RoleError config_message), empty_world)
   \<and> requires_role net_admin ''user'' dummy [PInt 7, PSession 0] Map.empty empty_world
     = (Inl (RoleError config_message), empty_world)
   \<and> config_message \<noteq> role_message ''user'' ''user''"
proof -
  have a: "fst (locate [example_url] Map.empty) = PNone"
    by (simp add: locate_def kwargs_get_def example_url_def)
  have b: "snd (locate [PInt 7, PSession 0] Map.empty) = PNone"
    by (simp add: locate_def kwargs_get_def)
  from requires_role_config_error[of "[example_url]" Map.empty net_admin "''user''" dummy empty_world]
       requires_role_config_error[of "[PInt 7, PSession 0]" Map.empty net_admin "''user''" dummy empty_world]
       a b
  show ?thesis by blast
qed

text \<open>
  C5 as stated fails: a call without a session and a call by a plain user that needs a
  manager raise exceptions of one class, \<^verbatim>\<open>RoleError\<close>, so the first is no error
  distinct from the insufficient-permission failure for an \<^verbatim>\<open>except\<close> clause.
\<close>

theorem requires_role_config_error_same_class_counterexample:
  "fst (requires_role net_user ''manager'' dummy [example_url] Map.empty empty_world)
     = Inl (RoleError config_message)
   \<and> fst (requires_role net_user ''manager'' dummy [PSession 0, example_url] Map.empty empty_world)
     = Inl (RoleError (role_message ''manager'' ''user''))
   \<and> exn_class (RoleError config_message) = exn_class (RoleError (role_message ''manager'' ''user''))"
proof -
  have "locate [example_url] Map.empty = (PNone, PNone)"
    by (simp add: locate_def kwargs_get_def example_url_def)
  moreover have "locate [PSession 0, example_url] Map.empty = (PSession 0, example_url)"
    by (simp add: locate_def kwargs_get_def example_url_def)
  moreover have "example_url \<noteq> PNone" by (simp add: example_url_def)
  ultimately show ?thesis
    by (simp add: requires_role_def wrapper_def user_run ROLE_HIERARCHY_def)
qed




text \<open>
  C9. With the session passed by keyword and not among the positional arguments, and no
  \<^verbatim>\<open>base_url\<close> keyword, the wrapper finds no base URL, whatever the positional
  arguments are, and raises \<^verbatim>\<open>RoleError\<close>.
\<close>

theorem requires_role_keyword_session_positional_base_url:
  assumes "kwargs ''session'' = Some s" and "s \<noteq> PNone"
    and "kwargs ''base_url'' = None" and "s \<notin> set args"
  shows "requires_role net required func args kwargs w = (Inl (RoleError config_message), w)"
proof -
  have "index args s = None" using assms(4) by (simp add: index_None_iff)
  then have "locate args kwargs = (s, PNone)"
    using assms by (simp add: locate_def kwargs_get_def)
  then show ?thesis by (simp add: requires_role_def wrapper_def)
qed

theorem requires_role_keyword_session_positional_base_url_witness:
  "requires_role net_admin ''user'' dummy [example_url] [''session'' \<mapsto> PSession 0] empty_world
     = (Inl (RoleError config_message), empty_world)"
  using requires_role_keyword_session_positional_base_url
          [of "[''session'' \<mapsto> PSession 0]" "PSession 0" "[example_url]" net_admin "''user''" dummy empty_world]
  by (simp add: example_url_def)

section \<open>Properties of site.py\<close>

subsection \<open>Comprehensions, dictionaries and constructors\<close>

lemma comprehension_Inr_all2:
  "comprehension f xs = Inr ys \<Longrightarrow> list_all2 (\<lambda>x y. f x = Inr y) xs ys"
  by (induction xs arbitrary: ys) (auto split: sum.splits)

lemma comprehension_Inl:
  "x \<in> set xs \<Longrightarrow> f x = Inl e \<Longrightarrow> \<exists>e'. comprehension f xs = Inl e'"
  by (induction xs) (auto split: sum.splits)

lemma map_of_response:
  "map_of (map (\<lambda>kv. (fst kv, Json (snd kv))) kvs) k = map_option Json (map_of kvs k)"
  by (induction kvs) auto

lemma keys_response:
  "fst ` set (map (\<lambda>kv. (fst kv, Json (snd kv))) kvs) = fst ` set kvs"
  by (induction kvs) auto

lemma map_of_tabulate:
  "map_of (map (\<lambda>k. (k, g k)) ks) k = (if k \<in> set ks then Some (g k) else None)"
  by (induction ks) auto

lemma init_accepts_keys: "init_accepts names kw \<longleftrightarrow> fst ` set kw = set names"
  by (auto simp: init_accepts_def)

lemma SiteInfo_init_accepts: "SiteInfo_init kw = Inr si \<Longrightarrow> init_accepts SiteInfo_field_names kw"
  by (cases "init_accepts SiteInfo_field_names kw") (simp_all add: SiteInfo_init_def)

lemma SiteFunction_init_unexpected:
  "k \<in> fst ` set kw \<Longrightarrow> k \<noteq> ''name'' \<Longrightarrow> k \<noteq> ''version'' \<Longrightarrow> SiteFunction_init (JObj kw) = Inl TypeError"
  by (auto simp: SiteFunction_init_def init_accepts_keys)

lemma AdvancedFeature_init_unexpected:
  "k \<in> fst ` set kw \<Longrightarrow> k \<noteq> ''name'' \<Longrightarrow> k \<noteq> ''value'' \<Longrightarrow> AdvancedFeature_init (JObj kw) = Inl TypeError"
  by (auto simp: AdvancedFeature_init_def init_accepts_keys)

lemma records_of_Json_Inl:
  assumes "py_iter j = Inr xs" and "x \<in> set xs" and "init x = Inl e"
  shows "\<exists>e'. records_of init (Json j) = Inl e'"
  using comprehension_Inl[of x xs init e] assms by (simp add: records_of_def)

lemma records_of_Json_Inr:
  assumes "records_of init (Json j) = Inr ys"
  obtains xs where "py_iter j = Inr xs" and "list_all2 (\<lambda>x y. init x = Inr y) xs ys"
  using assms by (auto simp: records_of_def split: sum.splits dest: comprehension_Inr_all2)

lemma SiteInfo_dict_init:
  assumes "SiteInfo_init kw = Inr si"
  shows "SiteInfo_dict si = map (\<lambda>k. (k, the (map_of kw k))) SiteInfo_field_names"
proof -
  have "init_accepts SiteInfo_field_names kw" by (rule SiteInfo_init_accepts[OF assms])
  with assms show ?thesis
    by (simp add: SiteInfo_init_def) (auto simp: SiteInfo_dict_def SiteInfo_field_names_def)
qed

lemma SiteInfo_dict_lookup:
  assumes "SiteInfo_init kw = Inr si" and "k \<in> set SiteInfo_field_names"
  shows "map_of (SiteInfo_dict si) k = map_of kw k"
proof -
  have "k \<in> fst ` set kw"
    using SiteInfo_init_accepts[OF assms(1)] assms(2) by (simp only: init_accepts_keys)
  then obtain v where "map_of kw k = Some v"
    by (metis map_of_eq_None_iff not_None_eq)
  then show ?thesis
    using assms(2) by (simp add: SiteInfo_dict_init[OF assms(1)] map_of_tabulate)
qed

lemma SiteInfo_init_functions:
  "SiteInfo_init kw = Inr si \<Longrightarrow> functions si = the (map_of kw ''functions'')"
  by (cases "init_accepts SiteInfo_field_names kw") (auto simp: SiteInfo_init_def)

lemma SiteInfo_init_advancedfeatures:
  "SiteInfo_init kw = Inr si \<Longrightarrow> advancedfeatures si = the (map_of kw ''advancedfeatures'')"
  by (cases "init_accepts SiteInfo_field_names kw") (auto simp: SiteInfo_init_def)

subsection \<open>The shape of a successful call\<close>

lemma site_info_of_Inr:
  assumes "site_info_of r = Inr si"
  obtains kvs fv fs av afs where
    "r = JObj kvs"
    "map_of kvs ''functions'' = Some fv"
    "records_of SiteFunction_init (Json fv) = Inr fs"
    "map_of kvs ''advancedfeatures'' = Some av"
    "records_of AdvancedFeature_init (Json av) = Inr afs"
    "SiteInfo_init (AList.update ''advancedfeatures'' (AdvancedFeatures afs)
        (AList.update ''functions'' (SiteFunctions fs)
           (map (\<lambda>kv. (fst kv, Json (snd kv))) kvs))) = Inr si"
  using assms
  by (auto simp: site_info_of_def Let_def map_of_response update_conv'
      split: json.splits option.splits sum.splits)

lemma site_info_of_keys:
  assumes "site_info_of (JObj kvs) = Inr si"
  shows "fst ` set kvs = set SiteInfo_field_names"
proof -
  from assms obtain fv fs av afs where
    f: "map_of kvs ''functions'' = Some fv" and a: "map_of kvs ''advancedfeatures'' = Some av"
    and i: "SiteInfo_init (AList.update ''advancedfeatures'' (AdvancedFeatures afs)
        (AList.update ''functions'' (SiteFunctions fs)
           (map (\<lambda>kv. (fst kv, Json (snd kv))) kvs))) = Inr si"
    by (auto elim!: site_info_of_Inr)
  have kf: "''functions'' \<in> fst ` set kvs"
    using map_of_SomeD[OF f] by (rule rev_image_eqI) simp
  have ka: "''advancedfeatures'' \<in> fst ` set kvs"
    using map_of_SomeD[OF a] by (rule rev_image_eqI) simp
  have "{''advancedfeatures''} \<union> ({''functions''} \<union> fst ` set kvs) = set SiteInfo_field_names"
    using SiteInfo_init_accepts[OF i] by (simp only: init_accepts_keys dom_update keys_response)
  moreover have "{''advancedfeatures''} \<union> ({''functions''} \<union> fst ` set kvs) = fst ` set kvs"
    using kf ka by blast
  ultimately show ?thesis by (simp only:)
qed

lemma get_site_info_Inr:
  "get_site_info session = (Inr si, session') \<longleftrightarrow>
     (\<exists>r. ws_answer session ''core_webservice_get_site_info'' = Inr r \<and> site_info_of r = Inr si)
     \<and> session' = session\<lparr>ws_calls := ws_calls session @ [''core_webservice_get_site_info'']\<rparr>"
  by (auto simp: get_site_info_def session_call_def split: sum.splits)

lemma get_site_info_Inl:
  "ws_answer session ''core_webservice_get_site_info'' = Inr r \<Longrightarrow>
   (\<And>si. site_info_of r = Inr si \<Longrightarrow> False) \<Longrightarrow> \<exists>e. fst (get_site_info session) = Inl e"
  by (cases "site_info_of r") (auto simp: get_site_info_def session_call_def)

lemma example_site_info_of: "site_info_of (JObj example_fields) = Inr example_site_info"
  by (simp add: site_info_of_def example_fields_def example_site_info_def records_of_def
      SiteFunction_init_def AdvancedFeature_init_def SiteInfo_init_def init_accepts_def
      SiteInfo_field_names_def)

lemma example_run:
  "get_site_info (example_session example_fields)
     = (Inr example_site_info,
        (example_session example_fields)\<lparr>ws_calls := [''core_webservice_get_site_info'']\<rparr>)"
  by (simp add: get_site_info_def session_call_def example_session_def example_site_info_of)

subsection \<open>Specified properties\<close>

text \<open>
  C2. When the answer of the web service is a dictionary that lacks a declared field of
  \<^verbatim>\<open>SiteInfo\<close>, \<^verbatim>\<open>get_site_info\<close> raises: it returns no record, so none with the field
  dropped or defaulted.
\<close>

theorem get_site_info_missing_field:
  assumes "ws_answer session ''core_webservice_get_site_info'' = Inr (JObj kvs)"
    and "f \<in> set SiteInfo_field_names" and "f \<notin> fst ` set kvs"
  shows "\<exists>e. fst (get_site_info session) = Inl e"
proof (cases "site_info_of (JObj kvs)")
  case (Inl e)
  then show ?thesis using assms(1) by (simp add: get_site_info_def session_call_def)
next
  case (Inr si)
  from site_info_of_keys[OF this] assms(2,3) show ?thesis by simp
qed

theorem get_site_info_missing_field_witness:
  "''policyagreed'' \<in> set SiteInfo_field_names
   \<and> ''policyagreed'' \<notin> fst ` set (butlast example_fields)
   \<and> (\<exists>e. fst (get_site_info (example_session (butlast example_fields))) = Inl e)"
proof -
  have a: "ws_answer (example_session (butlast example_fields)) ''core_webservice_get_site_info''
             = Inr (JObj (butlast example_fields))"
    by (simp add: example_session_def)
  have b: "''policyagreed'' \<in> set SiteInfo_field_names"
    by (simp add: SiteInfo_field_names_def)
  have c: "''policyagreed'' \<notin> fst ` set (butlast example_fields)"
    by (simp add: example_fields_def)
  from b c get_site_info_missing_field[OF a b c] show ?thesis by (intro conjI)
qed

text \<open>
  C7. A successful \<^verbatim>\<open>get_site_info\<close> made exactly one call of the web service, the
  answer was a dictionary, the field \<^verbatim>\<open>functions\<close> is the list of the \<^verbatim>\<open>SiteFunction\<close>
  records built from the items of the answer's \<^verbatim>\<open>functions\<close> value, one by one and in
  order, likewise \<^verbatim>\<open>advancedfeatures\<close> with \<^verbatim>\<open>AdvancedFeature\<close>, and every other field
  holds the value the answer has under its name.
\<close>

theorem get_site_info_reshapes:
  assumes "get_site_info session = (Inr si, session')"
  shows "ws_calls session' = ws_calls session @ [''core_webservice_get_site_info'']
       \<and> (\<exists>kvs fv fitems fs av aitems afs.
             ws_answer session ''core_webservice_get_site_info'' = Inr (JObj kvs)
           \<and> map_of kvs ''functions'' = Some fv \<and> py_iter fv = Inr fitems
           \<and> functions si = SiteFunctions fs
           \<and> list_all2 (\<lambda>x y. SiteFunction_init x = Inr y) fitems fs
           \<and> map_of kvs ''advancedfeatures'' = Some av \<and> py_iter av = Inr aitems
           \<and> advancedfeatures si = AdvancedFeatures afs
           \<and> list_all2 (\<lambda>x y. AdvancedFeature_init x = Inr y) aitems afs
           \<and> (\<forall>k \<in> set SiteInfo_field_names - {''functions'', ''advancedfeatures''}.
                 \<exists>v. map_of kvs k = Some v \<and> map_of (SiteInfo_dict si) k = Some (Json v)))"
proof -
  from assms obtain r where
    r: "ws_answer session ''core_webservice_get_site_info'' = Inr r" "site_info_of r = Inr si"
    and log: "ws_calls session' = ws_calls session @ [''core_webservice_get_site_info'']"
    by (auto simp: get_site_info_Inr)
  from r(2) obtain kvs fv fs av afs where
    kvs: "r = JObj kvs"
    and f: "map_of kvs ''functions'' = Some fv" "records_of SiteFunction_init (Json fv) = Inr fs"
    and a: "map_of kvs ''advancedfeatures'' = Some av"
      "records_of AdvancedFeature_init (Json av) = Inr afs"
    and i: "SiteInfo_init (AList.update ''advancedfeatures'' (AdvancedFeatures afs)
        (AList.update ''functions'' (SiteFunctions fs)
           (map (\<lambda>kv. (fst kv, Json (snd kv))) kvs))) = Inr si"
    by (rule site_info_of_Inr)
  let ?kw = "AList.update ''advancedfeatures'' (AdvancedFeatures afs)
        (AList.update ''functions'' (SiteFunctions fs)
           (map (\<lambda>kv. (fst kv, Json (snd kv))) kvs))"
  from f(2) obtain fitems where
    fi: "py_iter fv = Inr fitems" "list_all2 (\<lambda>x y. SiteFunction_init x = Inr y) fitems fs"
    by (rule records_of_Json_Inr)
  from a(2) obtain aitems where
    ai: "py_iter av = Inr aitems" "list_all2 (\<lambda>x y. AdvancedFeature_init x = Inr y) aitems afs"
    by (rule records_of_Json_Inr)
  have fn: "functions si = SiteFunctions fs"
    by (simp add: SiteInfo_init_functions[OF i] update_conv')
  have af: "advancedfeatures si = AdvancedFeatures afs"
    by (simp add: SiteInfo_init_advancedfeatures[OF i] update_conv')
  have rest: "\<exists>v. map_of kvs k = Some v \<and> map_of (SiteInfo_dict si) k = Some (Json v)"
    if k: "k \<in> set SiteInfo_field_names - {''functions'', ''advancedfeatures''}" for k
  proof -
    from k have kin: "k \<in> set SiteInfo_field_names"
      and kf: "k \<noteq> ''functions''" and ka: "k \<noteq> ''advancedfeatures''"
      by simp_all
    have "k \<in> fst ` set kvs"
      using kin site_info_of_keys[of kvs si] r(2) kvs by simp
    then obtain v where v: "map_of kvs k = Some v"
      by (metis map_of_eq_None_iff not_None_eq)
    have "map_of ?kw k = map_option Json (map_of kvs k)"
      using kf ka by (simp add: update_conv' map_of_response)
    with v SiteInfo_dict_lookup[OF i kin] show ?thesis by simp
  qed
  from log r(1) kvs f(1) fi fn a(1) ai af rest show ?thesis by blast
qed

theorem get_site_info_reshapes_witness:
  "get_site_info (example_session example_fields)
     = (Inr example_site_info,
        (example_session example_fields)\<lparr>ws_calls := [''core_webservice_get_site_info'']\<rparr>)
   \<and> ws_calls ((example_session example_fields)\<lparr>ws_calls := [''core_webservice_get_site_info'']\<rparr>)
     = ws_calls (example_session example_fields) @ [''core_webservice_get_site_info'']"
  using example_run get_site_info_reshapes[OF example_run, THEN conjunct1] by (rule conjI)

text \<open>
  C10. \<^verbatim>\<open>get_site_info\<close> raises when the answer has a key that is no field of
  \<^verbatim>\<open>SiteInfo\<close>, when an element of its \<^verbatim>\<open>functions\<close> list has a key other than
  \<^verbatim>\<open>name\<close> and \<^verbatim>\<open>version\<close>, and when an element of its \<^verbatim>\<open>advancedfeatures\<close> list has a
  key other than \<^verbatim>\<open>name\<close> and \<^verbatim>\<open>value\<close>.
\<close>

theorem get_site_info_unexpected_key:
  assumes "ws_answer session ''core_webservice_get_site_info'' = Inr (JObj kvs)"
    and "(\<exists>k \<in> fst ` set kvs. k \<notin> set SiteInfo_field_names)
       \<or> (\<exists>items kw k. map_of kvs ''functions'' = Some (JList items) \<and> JObj kw \<in> set items
             \<and> k \<in> fst ` set kw \<and> k \<noteq> ''name'' \<and> k \<noteq> ''version'')
       \<or> (\<exists>items kw k. map_of kvs ''advancedfeatures'' = Some (JList items) \<and> JObj kw \<in> set items
             \<and> k \<in> fst ` set kw \<and> k \<noteq> ''name'' \<and> k \<noteq> ''value'')"
  shows "\<exists>e. fst (get_site_info session) = Inl e"
proof (rule get_site_info_Inl[OF assms(1)])
  fix si
  assume ok: "site_info_of (JObj kvs) = Inr si"
  then obtain fv fs av afs where
    f: "map_of kvs ''functions'' = Some fv" "records_of SiteFunction_init (Json fv) = Inr fs"
    and a: "map_of kvs ''advancedfeatures'' = Some av"
      "records_of AdvancedFeature_init (Json av) = Inr afs"
    by (auto elim!: site_info_of_Inr)
  from assms(2) show False
  proof (elim disjE bexE exE conjE)
    fix k
    assume "k \<in> fst ` set kvs" and "k \<notin> set SiteInfo_field_names"
    then show False by (simp only: site_info_of_keys[OF ok])
  next
    fix items kw k
    assume l: "map_of kvs ''functions'' = Some (JList items)" and m: "JObj kw \<in> set items"
      and k: "k \<in> fst ` set kw" "k \<noteq> ''name''" "k \<noteq> ''version''"
    have "py_iter (JList items) = Inr items" by simp
    from records_of_Json_Inl[where init = SiteFunction_init, OF this m SiteFunction_init_unexpected[OF k]]
    obtain e' where "records_of SiteFunction_init (Json (JList items)) = Inl e'" ..
    with f l show False by simp
  next
    fix items kw k
    assume l: "map_of kvs ''advancedfeatures'' = Some (JList items)" and m: "JObj kw \<in> set items"
      and k: "k \<in> fst ` set kw" "k \<noteq> ''name''" "k \<noteq> ''value''"
    have "py_iter (JList items) = Inr items" by simp
    from records_of_Json_Inl[where init = AdvancedFeature_init, OF this m AdvancedFeature_init_unexpected[OF k]]
    obtain e' where "records_of AdvancedFeature_init (Json (JList items)) = Inl e'" ..
    with a l show False by simp
  qed
qed

theorem get_site_info_unexpected_key_witness:
  "(\<exists>e. fst (get_site_info (example_session (example_fields @ [(''newfield'', JInt 1)]))) = Inl e)
   \<and> (\<exists>e. fst (get_site_info (example_session
              (AList.update ''functions'' (JList [extra_function]) example_fields))) = Inl e)
   \<and> (\<exists>e. fst (get_site_info (example_session
              (AList.update ''advancedfeatures'' (JList [extra_feature]) example_fields))) = Inl e)"
proof -
  have a: "ws_answer (example_session kvs) ''core_webservice_get_site_info'' = Inr (JObj kvs)" for kvs
    by (simp add: example_session_def)
  have "''newfield'' \<in> fst ` set (example_fields @ [(''newfield'', JInt 1)])"
    and "''newfield'' \<notin> set SiteInfo_field_names"
    by (simp_all add: SiteInfo_field_names_def)
  then have 1: "\<exists>k \<in> fst ` set (example_fields @ [(''newfield'', JInt 1)]). k \<notin> set SiteInfo_field_names"
    by (rule bexI[rotated])
  have "map_of (AList.update ''functions'' (JList [extra_function]) example_fields) ''functions''
          = Some (JList [extra_function])
        \<and> JObj [(''name'', JStr ''core_user_get_users''), (''version'', JStr ''2023100900''),
                 (''services'', JStr ''moodle_mobile_app'')] \<in> set [extra_function]
        \<and> ''services'' \<in> fst ` set [(''name'', JStr ''core_user_get_users''), (''version'', JStr ''2023100900''),
                 (''services'', JStr ''moodle_mobile_app'')]
        \<and> ''services'' \<noteq> ''name'' \<and> ''services'' \<noteq> ''version''"
    by (simp add: update_conv' extra_function_def)
  then have 2: "\<exists>items kw k. map_of (AList.update ''functions'' (JList [extra_function]) example_fields)
                   ''functions'' = Some (JList items) \<and> JObj kw \<in> set items
             \<and> k \<in> fst ` set kw \<and> k \<noteq> ''name'' \<and> k \<noteq> ''version''"
    by (intro exI)
  have "map_of (AList.update ''advancedfeatures'' (JList [extra_feature]) example_fields) ''advancedfeatures''
          = Some (JList [extra_feature])
        \<and> JObj [(''name'', JStr ''usetags''), (''value'', JInt 1), (''component'', JStr ''core'')]
            \<in> set [extra_feature]
        \<and> ''component'' \<in> fst ` set [(''name'', JStr ''usetags''), (''value'', JInt 1), (''component'', JStr ''core'')]
        \<and> ''component'' \<noteq> ''name'' \<and> ''component'' \<noteq> ''value''"
    by (simp add: update_conv' extra_feature_def)
  then have 3: "\<exists>items kw k. map_of (AList.update ''advancedfeatures'' (JList [extra_feature]) example_fields)
                   ''advancedfeatures'' = Some (JList items) \<and> JObj kw \<in> set items
             \<and> k \<in> fst ` set kw \<and> k \<noteq> ''name'' \<and> k \<noteq> ''value''"
    by (intro exI)
  from get_site_info_unexpected_key[OF a disjI1, OF 1]
       get_site_info_unexpected_key[OF a disjI2, OF disjI1, OF 2]
       get_site_info_unexpected_key[OF a disjI2, OF disjI2, OF 3]
  show ?thesis by (intro conjI)
qed

section \<open>Properties of example_script_with_progressbar.py\<close>

lemma console_print_fields [simp]:
  "remote (console_print m st) = remote st"
  "delete_calls (console_print m st) = delete_calls st"
  by (simp_all add: console_print_def)

lemma cleanup_loop_attempts:
  assumes "\<forall>course_id w e. fst (delete_course course_id w) = Some e \<longrightarrow> is_Exception e"
  shows "fst (cleanup_loop delete_course ids st) = None
       \<and> delete_calls (snd (cleanup_loop delete_course ids st)) = delete_calls st @ ids
       \<and> remote (snd (cleanup_loop delete_course ids st))
           = foldl (\<lambda>w course_id. snd (delete_course course_id w)) (remote st) ids"
proof (induction ids arbitrary: st)
  case Nil
  then show ?case by simp
next
  case (Cons course_id ids)
  obtain r w' where d: "delete_course course_id (remote st) = (r, w')"
    by (cases "delete_course course_id (remote st)")
  have exc: "is_Exception e" if "r = Some e" for e
    using assms d that by (metis fst_conv)
  show ?case
  proof (cases r)
    case None
    with d Cons.IH show ?thesis by (simp add: call_delete_course_def)
  next
    case (Some e)
    with d exc[OF Some] Cons.IH show ?thesis by (simp add: call_delete_course_def)
  qed
qed

lemma cleanup_attempts:
  assumes "\<forall>course_id w e. fst (delete_course course_id w) = Some e \<longrightarrow> is_Exception e"
  shows "fst (cleanup delete_course ids st) = None
       \<and> delete_calls (snd (cleanup delete_course ids st)) = delete_calls st @ ids
       \<and> remote (snd (cleanup delete_course ids st))
           = foldl (\<lambda>w course_id. snd (delete_course course_id w)) (remote st) ids"
  using cleanup_loop_attempts[OF assms, of ids "console_print CleanupPhase st"]
  by (cases "cleanup_loop delete_course ids (console_print CleanupPhase st)")
     (auto simp: cleanup_def)

text \<open>
  C8. Let \<^verbatim>\<open>delete_course\<close> raise nothing but exceptions deriving from \<^verbatim>\<open>Exception\<close>.
  After a successful login, whatever the main phase does, raise or not, \<^verbatim>\<open>main\<close> calls
  \<^verbatim>\<open>delete_course\<close> once for every identifier in \<^verbatim>\<open>created_course_ids\<close>, in order, each
  on the platform the previous call left; no error of a deletion leaves \<^verbatim>\<open>main\<close>, which
  raises only what the main phase raised outside \<^verbatim>\<open>Exception\<close>.
\<close>

theorem main_cleanup_attempts_every_course:
  assumes "\<forall>course_id w e. fst (delete_course course_id w) = Some e \<longrightarrow> is_Exception e"
    and "MoodleSession_get (remote start) = (None, w')"
    and "main_phase ((console_print Starting start)\<lparr>remote := w'\<rparr>) = ((raised, created_course_ids), ended)"
  shows "delete_calls (snd (main True MoodleSession_get main_phase delete_course start))
           = delete_calls ended @ created_course_ids
       \<and> remote (snd (main True MoodleSession_get main_phase delete_course start))
           = foldl (\<lambda>w course_id. snd (delete_course course_id w)) (remote ended) created_course_ids
       \<and> fst (main True MoodleSession_get main_phase delete_course start)
           = (case raised of None \<Rightarrow> None | Some e \<Rightarrow> if is_Exception e then None else Some e)"
proof -
  have m: "main True MoodleSession_get main_phase delete_course start
             = try_main_phase main_phase delete_course ((console_print Starting start)\<lparr>remote := w'\<rparr>)"
    using assms(2) by (simp add: main_def Let_def)
  define st2 where "st2 = (case raised of
        None \<Rightarrow> ended
      | Some e \<Rightarrow> if is_Exception e
                  then console_print WillAttemptCleanup (console_print (ErrorOccurred e) ended)
                  else ended)"
  have st2: "delete_calls st2 = delete_calls ended" "remote st2 = remote ended"
    by (simp_all add: st2_def split: option.splits)
  obtain r st3 where c: "cleanup delete_course created_course_ids st2 = (r, st3)"
    by (cases "cleanup delete_course created_course_ids st2")
  from cleanup_attempts[OF assms(1), of created_course_ids st2] c st2
  have r: "r = None" and d: "delete_calls st3 = delete_calls ended @ created_course_ids"
    and w: "remote st3 = foldl (\<lambda>w course_id. snd (delete_course course_id w)) (remote ended) created_course_ids"
    by simp_all
  have "try_main_phase main_phase delete_course ((console_print Starting start)\<lparr>remote := w'\<rparr>)
          = ((case raised of None \<Rightarrow> None | Some e \<Rightarrow> if is_Exception e then None else Some e), st3)"
    using assms(3) c r by (auto simp: try_main_phase_def st2_def split: option.splits)
  with m d w show ?thesis by simp
qed

theorem main_cleanup_attempts_every_course_witness:
  "delete_calls (snd (main True example_login example_main_phase example_delete_course fresh_run))
     = [3, 9, 4]
   \<and> remote (snd (main True example_login example_main_phase example_delete_course fresh_run)) = [1]
   \<and> fst (main True example_login example_main_phase example_delete_course fresh_run) = None"
proof -
  have a: "\<forall>course_id w e. fst (example_delete_course course_id w) = Some e \<longrightarrow> is_Exception e"
    by (auto simp: example_delete_course_def split: if_splits)
  have b: "example_login (remote fresh_run) = (None, [1])"
    by (simp add: example_login_def fresh_run_def)
  have c: "example_main_phase ((console_print Starting fresh_run)\<lparr>remote := [1]\<rparr>)
             = ((Some (MoodleError ''upload failed''), [3, 9, 4]),
                \<lparr>remote = [3, 4, 1], console = [Starting, MainPhase ''Course created''],
                  delete_calls = []\<rparr>)"
    by (simp add: example_main_phase_def console_print_def fresh_run_def)
  from main_cleanup_attempts_every_course
         [where delete_course = example_delete_course and MoodleSession_get = example_login
            and start = fresh_run and main_phase = example_main_phase, OF a b c]
  show ?thesis by (simp add: example_delete_course_def)
qed

end
